theory Spec2Isabelle
  imports Complex_Main "HOL-Library.Multiset"
begin

text \<open>
  A model of \<open>dswx_sar/refine_with_bimodality.py\<close>: the bimodality estimator
  (\<open>BimodalityMetrics\<close>), the two workers (\<open>process_dark_land_component\<close>,
  \<open>process_bright_water_component\<close>) and the body of the block loop of the two drivers
  (\<open>remove_false_water_bimodality_parallel\<close>, \<open>fill_gap_water_bimodality_parallel\<close>).
  Files are the arrays read from them, exceptions are values of a sum type, and the
  worker pool is a map over the jobs.
\<close>

section \<open>Floating-point values\<close>

text \<open>
  The rasters and every statistic derived from them are IEEE doubles. The decisions of
  the refinement engine depend on how comparisons treat NaN (every comparison with NaN is
  false), so a value is NaN, an infinity, or a finite number. Finite arithmetic is exact
  (rounding is not modelled).
\<close>

datatype fl = NaN | MInf | Fin real | PInf

fun isnan :: "fl \<Rightarrow> bool" where
  "isnan NaN = True"
| "isnan _ = False"

fun isinf :: "fl \<Rightarrow> bool" where
  "isinf MInf = True"
| "isinf PInf = True"
| "isinf _ = False"

fun fl_less :: "fl \<Rightarrow> fl \<Rightarrow> bool" where
  "fl_less NaN _ = False"
| "fl_less _ NaN = False"
| "fl_less PInf _ = False"
| "fl_less _ MInf = False"
| "fl_less MInf _ = True"
| "fl_less (Fin a) (Fin b) = (a < b)"
| "fl_less (Fin a) PInf = True"

definition fl_gt :: "fl \<Rightarrow> fl \<Rightarrow> bool" where
  "fl_gt a b = fl_less b a"

definition fl_eq :: "fl \<Rightarrow> fl \<Rightarrow> bool" where
  "fl_eq a b = (\<not> isnan a \<and> a = b)"

definition fl_le :: "fl \<Rightarrow> fl \<Rightarrow> bool" where
  "fl_le a b = (fl_less a b \<or> fl_eq a b)"

definition fl_ge :: "fl \<Rightarrow> fl \<Rightarrow> bool" where
  "fl_ge a b = (fl_less b a \<or> fl_eq a b)"

fun fl_neg :: "fl \<Rightarrow> fl" where
  "fl_neg NaN = NaN"
| "fl_neg MInf = PInf"
| "fl_neg PInf = MInf"
| "fl_neg (Fin a) = Fin (- a)"

fun fl_add :: "fl \<Rightarrow> fl \<Rightarrow> fl" where
  "fl_add NaN _ = NaN"
| "fl_add _ NaN = NaN"
| "fl_add PInf MInf = NaN"
| "fl_add MInf PInf = NaN"
| "fl_add PInf _ = PInf"
| "fl_add _ PInf = PInf"
| "fl_add MInf _ = MInf"
| "fl_add _ MInf = MInf"
| "fl_add (Fin a) (Fin b) = Fin (a + b)"

definition fl_sub :: "fl \<Rightarrow> fl \<Rightarrow> fl" where
  "fl_sub a b = fl_add a (fl_neg b)"

text \<open>Product of a finite factor \<open>c\<close> with a value (\<open>0 * inf\<close> is NaN).\<close>

fun fl_scale :: "real \<Rightarrow> fl \<Rightarrow> fl" where
  "fl_scale c NaN = NaN"
| "fl_scale c (Fin a) = Fin (c * a)"
| "fl_scale c PInf = (if 0 < c then PInf else if c < 0 then MInf else NaN)"
| "fl_scale c MInf = (if 0 < c then MInf else if c < 0 then PInf else NaN)"

definition fl_sum :: "fl list \<Rightarrow> fl" where
  "fl_sum xs = foldr fl_add xs (Fin 0)"

text \<open>\<open>10 * np.log10(x)\<close>: the conversion to decibels.\<close>

fun to_db :: "fl \<Rightarrow> fl" where
  "to_db NaN = NaN"
| "to_db MInf = NaN"
| "to_db PInf = PInf"
| "to_db (Fin x) = (if 0 < x then Fin (10 * log 10 x) else if x = 0 then MInf else NaN)"

section \<open>The numpy statistics the classifiers call\<close>

definition drop_nan :: "fl list \<Rightarrow> fl list" where
  "drop_nan xs = filter (\<lambda>x. \<not> isnan x) xs"

text \<open>\<open>np.nanmean\<close>: the mean of the non-NaN entries, NaN when there is none.\<close>

definition nanmean :: "fl list \<Rightarrow> fl" where
  "nanmean xs =
     (let ys = drop_nan xs
      in if ys = [] then NaN else fl_scale (1 / real (length ys)) (fl_sum ys))"

fun fl_insort :: "fl \<Rightarrow> fl list \<Rightarrow> fl list" where
  "fl_insort x [] = [x]"
| "fl_insort x (y # ys) = (if fl_less y x then y # fl_insort x ys else x # y # ys)"

definition fl_sort :: "fl list \<Rightarrow> fl list" where
  "fl_sort xs = foldr fl_insort xs []"

text \<open>\<open>np.nanmedian\<close>: the median of the non-NaN entries, NaN when there is none.\<close>

definition nanmedian :: "fl list \<Rightarrow> fl" where
  "nanmedian xs =
     (let ys = fl_sort (drop_nan xs); n = length ys
      in if n = 0 then NaN
         else if odd n then ys ! (n div 2)
         else fl_scale (1 / 2) (fl_add (ys ! (n div 2 - 1)) (ys ! (n div 2))))"

text \<open>
  \<open>np.nanpercentile(a, q)\<close> with the default linear interpolation between the two
  nearest order statistics of the non-NaN entries; NaN when there is none. The virtual
  index is \<open>q / 100 * (n - 1)\<close>.
\<close>

definition nanpercentile :: "fl list \<Rightarrow> nat \<Rightarrow> fl" where
  "nanpercentile xs q =
     (let ys = fl_sort (drop_nan xs); n = length ys
      in if n = 0 then NaN
         else (let lo = (q * (n - 1)) div 100;
                   hi = min (lo + 1) (n - 1);
                   t = real ((q * (n - 1)) mod 100) / 100
               in fl_add (ys ! lo) (fl_scale t (fl_sub (ys ! hi) (ys ! lo)))))"

section \<open>Raster windows\<close>

text \<open>
  A worker reads the same window from the land-cover, intensity, reference-land and label
  files. The four arrays have the window's shape, so the window is one grid of pixels (a
  list of rows), each pixel carrying its value in every file; \<open>bands\<close> holds one
  intensity per polarisation band of the intensity file.
\<close>

record pixel =
  landcover :: int
  bands :: "fl list"
  ref_land :: fl
  water_label :: int

type_synonym window = "pixel list list"

text \<open>Boolean-mask indexing \<open>a[mask]\<close>: the selected entries in row-major order.\<close>

definition select2 :: "bool list list \<Rightarrow> 'a list list \<Rightarrow> 'a list" where
  "select2 m a = map snd (filter fst (zip (concat m) (concat a)))"

text \<open>
  \<open>rasterio\<close>'s windowed read, \<open>Window(col_off, row_off, width, height)\<close>, with the
  bounds \<open>[x_start, x_end, y_start, y_end]\<close> the driver has already clipped to the raster.
\<close>

type_synonym bounds = "nat \<times> nat \<times> nat \<times> nat"

fun read_window :: "bounds \<Rightarrow> 'a list list \<Rightarrow> 'a list list" where
  "read_window (x0, x1, y0, y1) img =
     map (\<lambda>row. take (x1 - x0) (drop x0 row)) (take (y1 - y0) (drop y0 img))"

subsection \<open>Binary dilation\<close>

text \<open>
  \<open>scipy.ndimage.binary_dilation(input, iterations=n, mask=msk)\<close> with the default
  cross-shaped structuring element and border value 0: in each iteration a pixel where
  the mask is true becomes true when it or one of its four neighbours is true; a pixel
  where the mask is false keeps its value.
\<close>

definition at2 :: "bool list list \<Rightarrow> nat \<Rightarrow> nat \<Rightarrow> bool" where
  "at2 img r c = (r < length img \<and> c < length (img ! r) \<and> img ! r ! c)"

definition dilate_step :: "bool list list \<Rightarrow> bool list list \<Rightarrow> bool list list" where
  "dilate_step msk img =
     map (\<lambda>r. map (\<lambda>c.
            if at2 msk r c
            then at2 img r c \<or> (0 < r \<and> at2 img (r - 1) c) \<or> at2 img (r + 1) c
                 \<or> (0 < c \<and> at2 img r (c - 1)) \<or> at2 img r (c + 1)
            else at2 img r c)
          [0..<length (img ! r)])
       [0..<length img]"

primrec binary_dilation :: "nat \<Rightarrow> bool list list \<Rightarrow> bool list list \<Rightarrow> bool list list" where
  "binary_dilation 0 msk img = img"
| "binary_dilation (Suc n) msk img = binary_dilation n msk (dilate_step msk img)"

section \<open>BimodalityMetrics\<close>

datatype error = IndexError | ValueError | AxisError

text \<open>
  The numerical routines the estimator calls are floating-point library code (Otsu
  thresholds, histogram and bounded least-squares fit, moments) or floating-point
  formulas over their results. They are parameters of the model: every theorem holds for
  whatever values they return. \<open>curve_fit\<close> stands for the whole \<open>try\<close> block of
  the constructor (seeds, histogram, fit): \<open>None\<close> when it raises and the exception is
  caught, otherwise the six fitted parameters \<open>(mu1, sigma1, amp1, mu2, sigma2, amp2)\<close>.
\<close>

type_synonym mode = "real \<times> real \<times> real"

record numerics =
  threshold_otsu :: "fl list \<Rightarrow> error + fl"
  threshold_multiotsu :: "fl list \<Rightarrow> error + fl list"
  curve_fit :: "fl list \<Rightarrow> fl \<Rightarrow> (mode \<times> mode) option"
  compute_bhc :: "fl list \<Rightarrow> mode \<Rightarrow> mode \<Rightarrow> fl"
  compute_surface_ratio :: "mode \<Rightarrow> mode \<Rightarrow> fl"
  compute_bimodality :: "fl list \<Rightarrow> mode \<Rightarrow> mode \<Rightarrow> fl"
  compute_bc_coefficient :: "fl list \<Rightarrow> fl"
  estimate_bimodality :: "fl list \<Rightarrow> fl \<times> fl"

record BimodalityMetrics =
  int_db :: "fl list"
  threshold_global_otsu :: fl
  fitted :: "(mode \<times> mode) option"

definition optimization :: "BimodalityMetrics \<Rightarrow> bool" where
  "optimization obj = (fitted obj \<noteq> None)"

text \<open>
  Lines 72 to 86 of the constructor: the global Otsu threshold, replaced by a level of
  the multi-level Otsu when it lies below the lower bound. \<open>np.where(...)[0][0]\<close> is the
  index of the first level strictly inside the bounds, and raises IndexError when no
  level is.
\<close>

definition gauss_dist_thres_bound :: "fl \<times> fl" where
  "gauss_dist_thres_bound = (Fin (- 18), Fin 0)"

definition global_threshold :: "numerics \<Rightarrow> fl \<times> fl \<Rightarrow> fl list \<Rightarrow> error + fl" where
  "global_threshold lib bound valid =
     (case threshold_otsu lib valid of
        Inl e \<Rightarrow> Inl e
      | Inr otsu \<Rightarrow>
          if fl_less otsu (fst bound) then
            (case threshold_multiotsu lib valid of
               Inl e \<Rightarrow> Inl e
             | Inr multi \<Rightarrow>
                 if list_ex (\<lambda>m. fl_ge m (fst bound)) multi then
                   (case filter (\<lambda>m. fl_gt m (fst bound) \<and> fl_less m (snd bound)) multi of
                      [] \<Rightarrow> Inl IndexError
                    | m # _ \<Rightarrow> Inr m)
                 else Inr otsu)
          else Inr otsu)"

text \<open>
  The constructor. \<open>int_db\<close> keeps every sample (the length test of \<open>compute_metric\<close>
  reads it); the thresholds are computed on the finite ones. The fitted modes are stored
  in ascending order of their means.
\<close>

definition order_modes :: "mode \<times> mode \<Rightarrow> mode \<times> mode" where
  "order_modes p = (if fst (fst p) > fst (snd p) then (snd p, fst p) else p)"

definition BimodalityMetrics_init :: "numerics \<Rightarrow> fl list \<Rightarrow> error + BimodalityMetrics" where
  "BimodalityMetrics_init lib intensity_array =
     (let db = map to_db intensity_array;
          valid = filter (\<lambda>x. \<not> (isnan x \<or> isinf x)) db
      in case global_threshold lib gauss_dist_thres_bound valid of
           Inl e \<Rightarrow> Inl e
         | Inr thr \<Rightarrow>
             Inr \<lparr> int_db = db, threshold_global_otsu = thr,
                   fitted = map_option order_modes (curve_fit lib db thr) \<rparr>)"

definition fl_div :: "real \<Rightarrow> real \<Rightarrow> fl" where
  "fl_div a b =
     (if b \<noteq> 0 then Fin (a / b) else if a = 0 then NaN else if 0 < a then PInf else MInf)"

definition compute_ashman :: "mode \<Rightarrow> mode \<Rightarrow> fl" where
  "compute_ashman first_mode second_mode =
     (let numerator = sqrt 2 * \<bar>fst first_mode - fst second_mode\<bar>;
          denominator = sqrt ((fst (snd first_mode))\<^sup>2 + (fst (snd second_mode))\<^sup>2)
      in fl_div numerator denominator)"

type_synonym metrics = "fl \<times> fl \<times> fl \<times> fl \<times> fl"

definition get_metric :: "numerics \<Rightarrow> BimodalityMetrics \<Rightarrow> metrics" where
  "get_metric lib obj =
     (case fitted obj of
        Some (first_mode, second_mode) \<Rightarrow>
          (compute_ashman first_mode second_mode,
           compute_bhc lib (int_db obj) first_mode second_mode,
           compute_surface_ratio lib first_mode second_mode,
           compute_bimodality lib (int_db obj) first_mode second_mode,
           compute_bc_coefficient lib (int_db obj))
      | None \<Rightarrow>
          (Fin 0, Fin 0, Fin 0,
           fst (estimate_bimodality lib (int_db obj)),
           compute_bc_coefficient lib (int_db obj)))"

text \<open>
  \<open>compute_metric\<close> with its five flags and the list
  \<open>thresholds = [ashman, bhc, surface_ratio, bm]\<close>. \<open>get_metric\<close> returns numbers, so
  the \<open>is None\<close> disjuncts of the source are never taken and are left out.
\<close>

record flags =
  ashman_flag :: bool
  bhc_flag :: bool
  bm_flag :: bool
  surface_ratio_flag :: bool
  bc_flag :: bool

definition default_flags :: flags where
  "default_flags = \<lparr> ashman_flag = True, bhc_flag = True, bm_flag = True,
                     surface_ratio_flag = True, bc_flag = True \<rparr>"

definition compute_metric :: "numerics \<Rightarrow> BimodalityMetrics \<Rightarrow> flags \<Rightarrow> fl list \<Rightarrow> bool" where
  "compute_metric lib obj fs thresholds =
     (if optimization obj \<and> length (int_db obj) > 4 then
        (case get_metric lib obj of
           (ashman, bhc, surface_ratio, bm_coeff, bc_coeff) \<Rightarrow>
             (let bm_coeff_bool = (bm_flag fs \<and> fl_gt bm_coeff (thresholds ! 3));
                  ashman_bool = (ashman_flag fs \<and> fl_gt ashman (thresholds ! 0));
                  bhc_bool = (bhc_flag fs \<and> fl_gt bhc (thresholds ! 1));
                  surface_ratio_bool =
                    (surface_ratio_flag fs \<and> fl_gt surface_ratio (thresholds ! 2));
                  bc_coeff_bool = (bc_flag fs \<and> fl_gt bc_coeff (Fin (5 / 9)));
                  bimodal_metrics =
                    (of_bool ashman_bool + of_bool bm_coeff_bool + of_bool bc_coeff_bool :: nat)
              in (bimodal_metrics \<ge> 2 \<or> fl_gt ashman (Fin 3)) \<and> surface_ratio_bool))
      else
        (case estimate_bimodality lib (int_db obj) of
           (bt_max, ad_max) \<Rightarrow> fl_gt bt_max (thresholds ! 3) \<and> fl_gt ad_max (Fin 1.5)))"

section \<open>The dark-land classifier\<close>

definition out_boundary :: "window \<Rightarrow> bool list list" where
  "out_boundary win = map (map (\<lambda>p. \<not> isnan (fl_sum (bands p)) \<and> water_label p = 0)) win"

definition watermask :: "window \<Rightarrow> nat \<Rightarrow> bool list list" where
  "watermask win i = map (map (\<lambda>p. water_label p = int i + 1)) win"

definition ref_land_portion :: "window \<Rightarrow> nat \<Rightarrow> fl" where
  "ref_land_portion win i = nanmean (select2 (watermask win i) (map (map ref_land) win))"

text \<open>\<open>int((np.sqrt(2) - 1.2) * np.sqrt(sizes))\<close>, the margin before its lower bound.\<close>

definition raw_margin :: "nat \<Rightarrow> nat" where
  "raw_margin sizes = nat \<lfloor>(sqrt 2 - 6 / 5) * sqrt (real sizes)\<rfloor>"

definition dark_land_margin :: "nat \<Rightarrow> nat" where
  "dark_land_margin sizes =
     (let margin = raw_margin sizes in if margin = 0 then 1 else margin)"

definition mask_buffer :: "window \<Rightarrow> nat \<Rightarrow> nat \<Rightarrow> bool list list" where
  "mask_buffer win i sizes =
     binary_dilation (dark_land_margin sizes) (out_boundary win) (watermask win i)"

definition single_band :: "window \<Rightarrow> nat \<Rightarrow> fl list list" where
  "single_band win pol_ind = map (map (\<lambda>p. bands p ! pol_ind)) win"

definition intensity_center :: "window \<Rightarrow> nat \<Rightarrow> nat \<Rightarrow> fl" where
  "intensity_center win pol_ind i = nanmedian (select2 (watermask win i) (single_band win pol_ind))"

text \<open>The ring: the pixels of the buffer outside the component.\<close>

definition adjacent_mask :: "window \<Rightarrow> nat \<Rightarrow> nat \<Rightarrow> bool list list" where
  "adjacent_mask win i sizes =
     map2 (map2 (\<lambda>w b. \<not> w \<and> b)) (watermask win i) (mask_buffer win i sizes)"


definition intensity_adjacent_area :: "window \<Rightarrow> nat \<Rightarrow> nat \<Rightarrow> nat \<Rightarrow> fl list" where
  "intensity_adjacent_area win pol_ind i sizes =
     select2 (adjacent_mask win i sizes) (single_band win pol_ind)"

definition intensity_adjacent_low :: "window \<Rightarrow> nat \<Rightarrow> nat \<Rightarrow> nat \<Rightarrow> fl" where
  "intensity_adjacent_low win pol_ind i sizes =
     nanpercentile (intensity_adjacent_area win pol_ind i sizes) 15"

text \<open>The sample handed to the estimator: the buffer's intensities, NaN and zero dropped.\<close>

definition valid_intensity :: "fl \<Rightarrow> bool" where
  "valid_intensity x = (\<not> (isnan x \<or> fl_eq x (Fin 0)))"

definition intensity_array :: "window \<Rightarrow> nat \<Rightarrow> nat \<Rightarrow> nat \<Rightarrow> fl list" where
  "intensity_array win pol_ind i sizes =
     filter valid_intensity (select2 (mask_buffer win i sizes) (single_band win pol_ind))"

definition metric_list :: "metrics \<Rightarrow> fl list" where
  "metric_list m = (case m of (a, b, c, d, e) \<Rightarrow> [a, b, c, d, e])"

definition zeros5 :: "fl list" where
  "zeros5 = replicate 5 (Fin 0)"

text \<open>
  \<open>bands[pol_ind, ...]\<close> raises IndexError when the intensity file has no band
  \<open>pol_ind\<close>.
\<close>

definition has_band :: "window \<Rightarrow> nat \<Rightarrow> bool" where
  "has_band win pol_ind = list_all (\<lambda>p. pol_ind < length (bands p)) (concat win)"

type_synonym dark_land_result = "nat \<times> bool \<times> fl \<times> fl list"

text \<open>
  The worker. \<open>scene\<close> is the content of the four files; the arguments are those of the
  source's tuple that the decision reads.
\<close>

definition process_dark_land_component ::
  "numerics \<Rightarrow> window \<Rightarrow> nat \<Rightarrow> fl list \<Rightarrow> nat \<Rightarrow> bool \<Rightarrow> nat \<times> nat \<times> bounds
     \<Rightarrow> error + dark_land_result" where
  "process_dark_land_component lib scene pol_ind thresholds minimum_pixel debug_mode args =
     (case args of (i, sizes, bnds) \<Rightarrow>
        (let win = read_window bnds scene;
             portion = ref_land_portion win i
         in if sizes \<ge> minimum_pixel \<and> \<not> isnan portion then
              if fl_gt portion (Fin 0.8) then
                if \<not> has_band win pol_ind then Inl IndexError
                else if fl_gt (intensity_center win pol_ind i)
                              (intensity_adjacent_low win pol_ind i sizes)
                then Inr (i, False, portion, zeros5)
                else
                  (let sample = intensity_array win pol_ind i sizes
                   in if length sample > 4 then
                        (case BimodalityMetrics_init lib sample of
                           Inl e \<Rightarrow> Inl e
                         | Inr metric_obj \<Rightarrow>
                             Inr (i, compute_metric lib metric_obj default_flags thresholds,
                                  portion,
                                  if debug_mode then metric_list (get_metric lib metric_obj)
                                  else zeros5))
                      else Inr (i, False, portion, zeros5))
              else Inr (i, True, portion, zeros5)
            else Inr (i, False, portion, zeros5)))"

section \<open>The bright-water classifier\<close>

text \<open>
  The worker reads the window from the same four files; of a file with several bands it
  keeps band \<open>pol_ind\<close> (IndexError when there is none), of a file with one band that
  band.
\<close>

definition bright_has_band :: "window \<Rightarrow> nat \<Rightarrow> bool" where
  "bright_has_band win pol_ind =
     list_all (\<lambda>p. length (bands p) = 1 \<or> pol_ind < length (bands p)) (concat win)"

definition bright_band :: "nat \<Rightarrow> pixel \<Rightarrow> fl" where
  "bright_band pol_ind p = (if length (bands p) > 1 then bands p ! pol_ind else bands p ! 0)"

text \<open>
  \<open>np.squeeze\<close> drops every axis of length one, and \<open>np.sum(bands, axis=0)\<close> then
  adds along the first axis that is left: over the rows of each column for a window of
  several rows, over the whole row for a window of one row. For a window of one pixel
  nothing is left and numpy raises an axis error.
\<close>

definition single_pixel :: "window \<Rightarrow> bool" where
  "single_pixel win = (length win = 1 \<and> length (win ! 0) = 1)"

definition axis0_sum :: "window \<Rightarrow> nat \<Rightarrow> nat \<Rightarrow> fl" where
  "axis0_sum win pol_ind c =
     (if length win = 1 then fl_sum (map (bright_band pol_ind) (win ! 0))
      else fl_sum (map (\<lambda>row. bright_band pol_ind (row ! c)) win))"

definition adjacent_areas :: "window \<Rightarrow> nat \<Rightarrow> bool list list" where
  "adjacent_areas win pol_ind =
     map (\<lambda>row. map (\<lambda>c. \<not> isnan (axis0_sum win pol_ind c) \<and> water_label (row ! c) = 0)
                    [0..<length row]) win"

definition mask_water :: "window \<Rightarrow> nat \<Rightarrow> bool list list" where
  "mask_water win ind = map (map (\<lambda>p. water_label p = int ind + 1)) win"

definition landcover_water :: "pixel \<Rightarrow> bool" where
  "landcover_water p = (fl_eq (ref_land p) (Fin 0) \<or> landcover p = 0)"

definition landcover_portion :: "window \<Rightarrow> nat \<Rightarrow> real" where
  "landcover_portion win ind =
     (let landcover_water_target = select2 (mask_water win ind) (map (map landcover_water) win)
      in if length landcover_water_target > 0
         then real (length (filter id landcover_water_target))
              / real (length landcover_water_target)
         else 0)"

definition bright_intensity_array :: "window \<Rightarrow> nat \<Rightarrow> nat \<Rightarrow> nat \<Rightarrow> fl list" where
  "bright_intensity_array win pol_ind ind sizes =
     select2 (binary_dilation (max (raw_margin sizes) 5) (adjacent_areas win pol_ind)
                (mask_water win ind))
             (map (map (bright_band pol_ind)) win)"

type_synonym bright_water_result = "fl \<times> fl \<times> nat"

definition process_bright_water_component ::
  "numerics \<Rightarrow> window \<Rightarrow> nat \<Rightarrow> fl \<times> fl \<Rightarrow> nat \<times> nat \<times> bounds
     \<Rightarrow> error + bright_water_result" where
  "process_bright_water_component lib scene pol_ind threshold args =
     (case args of (ind_bright_water, sizes, bnds) \<Rightarrow>
        (let win = read_window bnds scene
         in if \<not> bright_has_band win pol_ind then Inl IndexError
            else if single_pixel win then Inl AxisError
            else if landcover_portion win ind_bright_water > 0.99 then
              (case estimate_bimodality lib
                      (map to_db (bright_intensity_array win pol_ind ind_bright_water sizes)) of
                 (bt_value, ad_value) \<Rightarrow> Inr (bt_value, ad_value, ind_bright_water))
            else Inr (fl_add (fst threshold) (Fin 0.5), fl_add (snd threshold) (Fin 0.5),
                      ind_bright_water)))"

text \<open>The driver's verdict on a worker's result (lines 1195 to 1198).\<close>

definition bimodality_bright_water :: "fl \<times> fl \<Rightarrow> bright_water_result \<Rightarrow> bool" where
  "bimodality_bright_water threshold res =
     (case res of (bt_value, ad_value, result_ind) \<Rightarrow>
        fl_less bt_value (fst threshold) \<or> fl_less ad_value (snd threshold))"

section \<open>The block drivers\<close>

text \<open>
  One row of the statistics of \<open>cv2.connectedComponentsWithStats\<close> (left, top, width,
  height, area), and the fields of a block parameter that the drivers read.
\<close>

record cc_stat =
  bbox_x :: int
  bbox_y :: int
  bbox_w :: int
  bbox_h :: int
  area :: nat

record block_param =
  read_start_line :: nat
  read_length :: nat
  block_length :: nat

type_synonym job = "nat \<times> nat \<times> bounds"

text \<open>A worker pool: the results in the order of the jobs, or the exception of a worker.\<close>

fun Parallel :: "('a \<Rightarrow> error + 'b) \<Rightarrow> 'a list \<Rightarrow> error + 'b list" where
  "Parallel f [] = Inr []"
| "Parallel f (a # as) =
     (case f a of
        Inl e \<Rightarrow> Inl e
      | Inr r \<Rightarrow> (case Parallel f as of Inl e \<Rightarrow> Inl e | Inr rs \<Rightarrow> Inr (r # rs)))"

subsection \<open>Removing false water\<close>

definition dark_land_dispatched :: "block_param \<Rightarrow> nat \<Rightarrow> cc_stat \<Rightarrow> bool" where
  "dark_land_dispatched bp minimum_pixel st =
     (bbox_y st \<noteq> 0 \<and> bbox_y st + bbox_h st \<noteq> int (block_length bp)
      \<and> area st \<ge> minimum_pixel)"

definition dark_land_job :: "block_param \<Rightarrow> nat \<Rightarrow> nat \<Rightarrow> nat \<Rightarrow> cc_stat \<Rightarrow> job" where
  "dark_land_job bp rows cols ind st =
     (let size = area st;
          margin = int (max (raw_margin size) 1);
          sub_x_start = bbox_x st - margin;
          sub_x_end = bbox_x st + bbox_w st + margin;
          sub_y_start = bbox_y st - margin + int (read_start_line bp);
          sub_y_end = bbox_y st + bbox_h st + margin + int (read_start_line bp)
      in (ind, size,
          (nat (max sub_x_start 0), nat (min sub_x_end (int cols)),
           nat (max sub_y_start 0), nat (min sub_y_end (int rows)))))"

text \<open>The dictionary \<open>component_data\<close>, as the list of its values in insertion order.\<close>

definition component_data :: "block_param \<Rightarrow> nat \<Rightarrow> nat \<Rightarrow> nat \<Rightarrow> cc_stat list \<Rightarrow> job list" where
  "component_data bp rows cols minimum_pixel stats =
     map (\<lambda>ind. dark_land_job bp rows cols ind (stats ! ind))
       (filter (\<lambda>ind. dark_land_dispatched bp minimum_pixel (stats ! ind)) [0..<length stats])"

text \<open>
  The label-indexed arrays of one polarisation. The two debug arrays are written in debug
  mode only; outside it they are never read and stay as they start.
\<close>

record dark_outputs =
  bimodality_output :: "nat list"
  check_output :: "nat list"
  ref_land_portion_output :: "fl list"
  metric_output :: "fl list list"

definition initial_outputs :: "nat \<Rightarrow> dark_outputs" where
  "initial_outputs n =
     \<lparr> bimodality_output = replicate n 0, check_output = replicate n 1,
       ref_land_portion_output = replicate n (Fin 0), metric_output = replicate n zeros5 \<rparr>"

definition assign_result :: "bool \<Rightarrow> dark_land_result \<Rightarrow> dark_outputs \<Rightarrow> dark_outputs" where
  "assign_result debug_mode res out =
     (case res of (bimodal_ind, bimodality_array_i, ref_land_portion_output_i, metric_output_i) \<Rightarrow>
        out \<lparr> bimodality_output := (bimodality_output out)[bimodal_ind := of_bool bimodality_array_i],
              check_output := (check_output out)[bimodal_ind := 0],
              ref_land_portion_output :=
                (if debug_mode
                 then (ref_land_portion_output out)[bimodal_ind := ref_land_portion_output_i]
                 else ref_land_portion_output out),
              metric_output :=
                (if debug_mode then (metric_output out)[bimodal_ind := metric_output_i]
                 else metric_output out) \<rparr>)"

text \<open>
  The loop over the results (lines 938 to 944). An index outside the arrays raises
  IndexError.
\<close>

fun assign_results :: "bool \<Rightarrow> dark_land_result list \<Rightarrow> dark_outputs \<Rightarrow> error + dark_outputs" where
  "assign_results debug_mode [] out = Inr out"
| "assign_results debug_mode (res # rest) out =
     (if fst res < length (bimodality_output out)
      then assign_results debug_mode rest (assign_result debug_mode res out)
      else Inl IndexError)"

text \<open>
  The scatter of a label-indexed array to the pixels (lines 946 to 953):
  \<open>old_val = np.arange(1, n + 1) - .1\<close>, \<open>np.searchsorted(old_val, output_water)\<close> with
  the default left side, a zero inserted in front of the array, and fancy indexing.
\<close>

definition old_val :: "nat \<Rightarrow> real list" where
  "old_val n = map (\<lambda>k. real k - 1 / 10) [1..<n + 1]"

definition searchsorted :: "real list \<Rightarrow> real \<Rightarrow> nat" where
  "searchsorted a v = length (takeWhile (\<lambda>x. x < v) a)"

definition index_array_to_image :: "nat \<Rightarrow> int list list \<Rightarrow> nat list list" where
  "index_array_to_image n output_water =
     map (map (\<lambda>l. searchsorted (old_val n) (real_of_int l))) output_water"

definition scatter :: "nat \<Rightarrow> int list list \<Rightarrow> nat list \<Rightarrow> nat list list" where
  "scatter n output_water label_values =
     map (map (\<lambda>k. (0 # label_values) ! k)) (index_array_to_image n output_water)"

text \<open>
  The body of the block loop for one polarisation: the jobs, the pool, the assignment of
  the results and the two images (bimodality image, check image). \<open>stats\<close> and
  \<open>output_water\<close> are the statistics and the label image of the block's components.
\<close>

definition dark_land_outputs ::
  "bool \<Rightarrow> cc_stat list \<Rightarrow> dark_land_result list \<Rightarrow> error + dark_outputs" where
  "dark_land_outputs debug_mode stats results =
     assign_results debug_mode results (initial_outputs (length stats))"

definition dark_land_images ::
  "bool \<Rightarrow> cc_stat list \<Rightarrow> int list list \<Rightarrow> dark_land_result list
     \<Rightarrow> error + nat list list \<times> nat list list" where
  "dark_land_images debug_mode stats output_water results =
     (case dark_land_outputs debug_mode stats results of
        Inl e \<Rightarrow> Inl e
      | Inr out \<Rightarrow>
          Inr (scatter (length stats) output_water (bimodality_output out),
               scatter (length stats) output_water (check_output out)))"

definition dark_land_results ::
  "numerics \<Rightarrow> window \<Rightarrow> nat \<Rightarrow> fl list \<Rightarrow> nat \<Rightarrow> bool \<Rightarrow> block_param \<Rightarrow> nat \<Rightarrow> nat
     \<Rightarrow> cc_stat list \<Rightarrow> error + dark_land_result list" where
  "dark_land_results lib scene pol_ind thresholds minimum_pixel debug_mode bp rows cols stats =
     Parallel (process_dark_land_component lib scene pol_ind thresholds minimum_pixel debug_mode)
       (component_data bp rows cols minimum_pixel stats)"


subsection \<open>Filling gaps\<close>

definition bright_water_dispatched :: "block_param \<Rightarrow> cc_stat \<Rightarrow> bool" where
  "bright_water_dispatched bp st =
     (bbox_y st \<noteq> 0 \<and> bbox_y st + bbox_h st \<noteq> int (block_length bp))"

definition bright_water_job :: "block_param \<Rightarrow> nat \<Rightarrow> nat \<Rightarrow> nat \<Rightarrow> cc_stat \<Rightarrow> job" where
  "bright_water_job bp rows cols ind st =
     (let margin = int (raw_margin (area st));
          sub_x_start = bbox_x st - margin;
          sub_x_end = bbox_x st + bbox_w st + margin + 1;
          sub_y_start = bbox_y st - margin + int (read_start_line bp);
          sub_y_end = bbox_y st + bbox_h st + margin + 1 + int (read_start_line bp)
      in (ind, area st,
          (nat (max sub_x_start 0), nat (min sub_x_end (int cols)),
           nat (max sub_y_start 0), nat (min sub_y_end (int rows)))))"

definition bright_component_data :: "block_param \<Rightarrow> nat \<Rightarrow> nat \<Rightarrow> cc_stat list \<Rightarrow> job list" where
  "bright_component_data bp rows cols stats =
     map (\<lambda>ind. bright_water_job bp rows cols ind (stats ! ind))
       (filter (\<lambda>ind. bright_water_dispatched bp (stats ! ind)) [0..<length stats])"

text \<open>The loop over the results (lines 1194 to 1201) on the pair of byte arrays.\<close>

definition assign_bright_result ::
  "fl \<times> fl \<Rightarrow> bright_water_result \<Rightarrow> nat list \<times> nat list \<Rightarrow> nat list \<times> nat list" where
  "assign_bright_result threshold res out =
     (let result_ind = snd (snd res)
      in ((fst out)[result_ind := of_bool (bimodality_bright_water threshold res)],
          (snd out)[result_ind := 0]))"

fun assign_bright_results ::
  "fl \<times> fl \<Rightarrow> bright_water_result list \<Rightarrow> nat list \<times> nat list \<Rightarrow> error + nat list \<times> nat list" where
  "assign_bright_results threshold [] out = Inr out"
| "assign_bright_results threshold (res # rest) out =
     (if snd (snd res) < length (fst out)
      then assign_bright_results threshold rest (assign_bright_result threshold res out)
      else Inl IndexError)"

definition bright_water_outputs ::
  "fl \<times> fl \<Rightarrow> cc_stat list \<Rightarrow> bright_water_result list \<Rightarrow> error + nat list \<times> nat list" where
  "bright_water_outputs threshold stats results =
     assign_bright_results threshold results
       (replicate (length stats) 0, replicate (length stats) 1)"

definition bright_water_images ::
  "fl \<times> fl \<Rightarrow> cc_stat list \<Rightarrow> int list list \<Rightarrow> bright_water_result list
     \<Rightarrow> error + nat list list \<times> nat list list" where
  "bright_water_images threshold stats output_water results =
     (case bright_water_outputs threshold stats results of
        Inl e \<Rightarrow> Inl e
      | Inr out \<Rightarrow>
          Inr (scatter (length stats) output_water (fst out),
               scatter (length stats) output_water (snd out)))"

definition bright_water_results ::
  "numerics \<Rightarrow> window \<Rightarrow> nat \<Rightarrow> fl \<times> fl \<Rightarrow> block_param \<Rightarrow> nat \<Rightarrow> nat \<Rightarrow> cc_stat list
     \<Rightarrow> error + bright_water_result list" where
  "bright_water_results lib scene pol_ind threshold bp rows cols stats =
     Parallel (process_bright_water_component lib scene pol_ind threshold)
       (bright_component_data bp rows cols stats)"

definition fill_gap_water_block ::
  "numerics \<Rightarrow> window \<Rightarrow> nat \<Rightarrow> fl \<times> fl \<Rightarrow> block_param \<Rightarrow> nat \<Rightarrow> nat \<Rightarrow> cc_stat list
     \<Rightarrow> int list list \<Rightarrow> error + nat list list \<times> nat list list" where
  "fill_gap_water_block lib scene pol_ind threshold bp rows cols stats output_water =
     (case bright_water_results lib scene pol_ind threshold bp rows cols stats of
        Inl e \<Rightarrow> Inl e
      | Inr results \<Rightarrow> bright_water_images threshold stats output_water results)"

section \<open>Example inputs\<close>

text \<open>
  Small scenes of one row, a component labelled 1 between two background pixels, and a
  set of numerical routines returning fixed values.
\<close>

definition px :: "real \<Rightarrow> fl \<Rightarrow> int \<Rightarrow> pixel" where
  "px b rl wl = \<lparr> landcover = 10, bands = [Fin b], ref_land = rl, water_label = wl \<rparr>"

definition bright_scene :: window where
  "bright_scene =
     [[px 1 (Fin 1) 0, px 5 (Fin 1) 1, px 5 (Fin 1) 1, px 5 (Fin 1) 1, px 5 (Fin 1) 1,
       px 1 (Fin 1) 0]]"

definition small_scene :: window where
  "small_scene = [[px 5 (Fin 0) 0, px 1 (Fin 0) 1, px 1 (Fin 0) 1, px 1 (Fin 0) 1, px 5 (Fin 0) 0]]"

definition nan_scene :: window where
  "nan_scene =
     [[px 5 (Fin 1) 0, px 1 NaN 1, px 1 NaN 1, px 1 NaN 1, px 1 NaN 1, px 5 (Fin 1) 0]]"

definition run_thresholds :: "fl list" where
  "run_thresholds = [Fin 1.5, Fin 0.97, Fin 0.1, Fin 0.7]"

definition lib0 :: numerics where
  "lib0 = \<lparr> threshold_otsu = (\<lambda>_. Inr (Fin (- 10))),
            threshold_multiotsu = (\<lambda>_. Inr [Fin (- 12), Fin (- 8)]),
            curve_fit = (\<lambda>_ _. None),
            compute_bhc = (\<lambda>_ _ _. Fin 0),
            compute_surface_ratio = (\<lambda>_ _. Fin 0),
            compute_bimodality = (\<lambda>_ _ _. Fin 0),
            compute_bc_coefficient = (\<lambda>_. Fin 0),
            estimate_bimodality = (\<lambda>_. (Fin 0, Fin 0)) \<rparr>"


text \<open>
  A component of four very dark pixels (-40 dB) between two bright targets (5 dB and
  10 dB), and the Otsu levels of the six samples: the global threshold and the first
  level of the multi-level Otsu sit at the dark cluster, the second level at the 5 dB
  sample.
\<close>

definition glint_scene :: window where
  "glint_scene =
     [[px 3.16 (Fin 1) 0, px 0.0001 (Fin 1) 1, px 0.0001 (Fin 1) 1, px 0.0001 (Fin 1) 1,
       px 0.0001 (Fin 1) 1, px 10 (Fin 1) 0]]"

definition otsu_gap_lib :: numerics where
  "otsu_gap_lib = lib0 \<lparr> threshold_otsu := (\<lambda>_. Inr (Fin (- 39.9))),
                         threshold_multiotsu := (\<lambda>_. Inr [Fin (- 39.9), Fin 5.02]) \<rparr>"

definition fitted_lib :: numerics where
  "fitted_lib = lib0 \<lparr> curve_fit := (\<lambda>_ _. Some ((- 5, 1, 1 / 10), (- 20, 1, 1 / 10))),
                       compute_bhc := (\<lambda>_ _ _. Fin 0.98),
                       compute_surface_ratio := (\<lambda>_ _. Fin 0.5),
                       compute_bimodality := (\<lambda>_ _ _. Fin 0.05),
                       compute_bc_coefficient := (\<lambda>_. Fin 0.6) \<rparr>"

definition fallback_lib :: numerics where
  "fallback_lib = lib0 \<lparr> estimate_bimodality := (\<lambda>_. (Fin 0.8, Fin 2)) \<rparr>"

definition fitted_obj :: BimodalityMetrics where
  "fitted_obj = \<lparr> int_db = [Fin (- 20), Fin (- 20), Fin (- 20), Fin (- 5), Fin (- 5), Fin (- 5)],
                  threshold_global_otsu = Fin (- 12),
                  fitted = Some ((- 20, 1, 1 / 10), (- 5, 1, 1 / 10)) \<rparr>"

definition unfitted_obj :: BimodalityMetrics where
  "unfitted_obj = fitted_obj \<lparr> fitted := None \<rparr>"

text \<open>
  A raster of six rows and seven columns processed in blocks of three rows. In the lower
  block (rows 3 to 5) the labelling finds three components of one pixel: label 1 on the
  block's first row, labels 2 and 3 inside. \<open>full_scene\<close> is the same raster in the
  full-image pass, where the label file holds the one component left to check.
\<close>

definition bg :: pixel where
  "bg = px 5 (Fin 1) 0"

definition bg_row :: "pixel list" where
  "bg_row = [bg, bg, bg, bg, bg, bg, bg]"

definition seam_scene :: window where
  "seam_scene =
     [bg_row, bg_row, bg_row,
      [bg, bg, bg, px 1 (Fin 0) 1, bg, bg, bg],
      [bg, px 1 (Fin 0) 2, bg, bg, bg, px 1 NaN 3, bg],
      bg_row]"

definition lower_block :: block_param where
  "lower_block = \<lparr> read_start_line = 3, read_length = 3, block_length = 3 \<rparr>"

definition lower_stats :: "cc_stat list" where
  "lower_stats =
     [\<lparr> bbox_x = 3, bbox_y = 0, bbox_w = 1, bbox_h = 1, area = 1 \<rparr>,
      \<lparr> bbox_x = 1, bbox_y = 1, bbox_w = 1, bbox_h = 1, area = 1 \<rparr>,
      \<lparr> bbox_x = 5, bbox_y = 1, bbox_w = 1, bbox_h = 1, area = 1 \<rparr>]"

definition lower_labels :: "int list list" where
  "lower_labels = [[0, 0, 0, 1, 0, 0, 0], [0, 2, 0, 0, 0, 3, 0], [0, 0, 0, 0, 0, 0, 0]]"




section \<open>Evaluation lemmas\<close>

lemma dark_land_margin_4: "dark_land_margin 4 = 1"
proof -
  have upper: "sqrt 2 < 3 / 2"
    by (rule real_less_lsqrt) (auto simp: power2_eq_square)
  have lower: "6 / 5 < sqrt 2"
    by (rule real_less_rsqrt) (auto simp: power2_eq_square)
  have "sqrt (real 4) = 2"
    using real_sqrt_abs [of 2] by simp
  then have "\<lfloor>(sqrt 2 - 6 / 5) * sqrt (real 4)\<rfloor> = 0"
    using upper lower by (simp add: floor_eq_iff)
  then show ?thesis
    by (simp add: dark_land_margin_def raw_margin_def)
qed

lemmas scene_eval =
  ref_land_portion_def watermask_def select2_def nanmean_def px_def drop_nan_def fl_sum_def
  single_band_def nanmedian_def fl_sort_def nanpercentile_def fl_sub_def out_boundary_def
  dilate_step_def at2_def upt_rec mask_buffer_def intensity_center_def
  intensity_adjacent_low_def intensity_adjacent_area_def adjacent_mask_def
  fl_gt_def fl_le_def fl_eq_def has_band_def run_thresholds_def










lemma nanmean_all_nan: "list_all isnan xs \<Longrightarrow> nanmean xs = NaN"
  by (simp add: nanmean_def drop_nan_def list_all_iff filter_empty_conv)

section \<open>The dark-land classifier: size and land-portion gates\<close>

text \<open>
  C6. A component whose size is below \<open>minimum_pixel\<close> is rejected: the worker returns
  the verdict False and a zero metric vector, whatever the land portion and the
  intensities are.
\<close>

theorem too_small_component_rejected:
  "sizes < minimum_pixel \<Longrightarrow>
   process_dark_land_component lib scene pol_ind thresholds minimum_pixel debug_mode
       (i, sizes, bnds)
     = Inr (i, False, ref_land_portion (read_window bnds scene) i, zeros5)"
  by (simp add: process_dark_land_component_def)

text \<open>C6 at a component of three pixels with \<open>minimum_pixel = 4\<close>.\<close>

theorem too_small_component_rejected_witness:
  "(3::nat) < 4 \<and>
   process_dark_land_component lib0 small_scene 0 run_thresholds 4 False (0, 3, (0, 5, 0, 1))
     = Inr (0, False, Fin 0, zeros5)"
  using too_small_component_rejected
          [of 3 4 lib0 small_scene 0 run_thresholds False 0 "(0, 5, 0, 1)"]
  by (simp add: small_scene_def scene_eval)

text \<open>
  C10. When the reference-land values over the component's pixels are all NaN, the land
  portion is NaN and the worker returns the verdict False with a zero metric vector,
  whatever the size is: the NaN case takes the branch of the too-small component, not the
  branch of a land portion of at most 0.8.
\<close>

theorem nan_land_portion_rejected:
  "list_all isnan (select2 (watermask (read_window bnds scene) i)
                           (map (map ref_land) (read_window bnds scene))) \<Longrightarrow>
   process_dark_land_component lib scene pol_ind thresholds minimum_pixel debug_mode
       (i, sizes, bnds)
     = Inr (i, False, NaN, zeros5)"
  by (simp add: process_dark_land_component_def ref_land_portion_def nanmean_all_nan Let_def)

text \<open>C10 at a component of four pixels, \<open>minimum_pixel = 4\<close>, in debug mode.\<close>

theorem nan_land_portion_rejected_witness:
  "(4::nat) \<ge> 4 \<and>
   list_all isnan (select2 (watermask (read_window (0, 6, 0, 1) nan_scene) 0)
                           (map (map ref_land) (read_window (0, 6, 0, 1) nan_scene))) \<and>
   process_dark_land_component lib0 nan_scene 0 run_thresholds 4 True (0, 4, (0, 6, 0, 1))
     = Inr (0, False, NaN, zeros5)"
  using nan_land_portion_rejected
          [of "(0, 6, 0, 1)" nan_scene 0 lib0 0 run_thresholds 4 True 4]
  by (simp add: nan_scene_def scene_eval)

text \<open>
  C5 as stated fails: a component of three pixels with land portion 0 and
  \<open>minimum_pixel = 4\<close> gets the verdict False, because the size gate comes first.
\<close>

theorem water_dominated_small_component_counterexample:
  "fl_le (ref_land_portion (read_window (0, 5, 0, 1) small_scene) 0) (Fin 0.8) \<and>
   process_dark_land_component lib0 small_scene 0 run_thresholds 4 False (0, 3, (0, 5, 0, 1))
     = Inr (0, False, Fin 0, zeros5)"
  by (simp add: process_dark_land_component_def small_scene_def scene_eval)

text \<open>
  C5, amended. A component with size at least \<open>minimum_pixel\<close> and land portion at most
  0.8 gets the verdict True and a zero metric vector, whatever the intensities, the
  thresholds and the numerical routines are.
\<close>

theorem water_dominated_component_accepted:
  "minimum_pixel \<le> sizes \<Longrightarrow>
   fl_le (ref_land_portion (read_window bnds scene) i) (Fin 0.8) \<Longrightarrow>
   process_dark_land_component lib scene pol_ind thresholds minimum_pixel debug_mode
       (i, sizes, bnds)
     = Inr (i, True, ref_land_portion (read_window bnds scene) i, zeros5)"
  by (cases "ref_land_portion (read_window bnds scene) i")
     (auto simp add: process_dark_land_component_def fl_le_def fl_gt_def fl_eq_def)

text \<open>C5, amended, at a component of three pixels with \<open>minimum_pixel = 3\<close>.\<close>

theorem water_dominated_component_accepted_witness:
  "(3::nat) \<le> 3 \<and>
   fl_le (ref_land_portion (read_window (0, 5, 0, 1) small_scene) 0) (Fin 0.8) \<and>
   process_dark_land_component lib0 small_scene 0 run_thresholds 3 False (0, 3, (0, 5, 0, 1))
     = Inr (0, True, Fin 0, zeros5)"
  using water_dominated_component_accepted
          [of 3 3 "(0, 5, 0, 1)" small_scene 0 lib0 0 run_thresholds False]
  by (simp add: small_scene_def scene_eval)

section \<open>The dark-land classifier: contrast with the surroundings\<close>




section \<open>The dark-land classifier: the sample of the bimodality test\<close>











section \<open>The decision rule of the estimator\<close>

lemma two_of_three:
  "((of_bool a + of_bool b + of_bool c :: nat) \<ge> 2) = ((a \<and> b) \<or> (a \<and> c) \<or> (b \<and> c))"
  by (cases a; cases b; cases c) simp_all

text \<open>
  C3. With the default flags and \<open>thresholds = [ashman, bhc, surface_ratio, bm]\<close>: when
  the fit succeeded and there are more than four samples, \<open>compute_metric\<close> is true
  exactly when at least two of (ashman above its threshold, bimodality coefficient above
  its threshold, BC coefficient above 5/9) hold or ashman is above 3, and the surface
  ratio is above its threshold; when the fit failed, it is true exactly when the
  fallback estimator's first value is above the bimodality threshold and its second
  value is above 1.5.
\<close>

theorem compute_metric_decision_rule:
  "(optimization obj \<and> length (int_db obj) > 4 \<and>
    get_metric lib obj = (ashman, bhc, surface_ratio, bm_coeff, bc_coeff) \<longrightarrow>
      compute_metric lib obj default_flags [ashman_thr, bhc_thr, surface_ratio_thr, bm_thr] =
        ((((fl_gt ashman ashman_thr \<and> fl_gt bm_coeff bm_thr)
           \<or> (fl_gt ashman ashman_thr \<and> fl_gt bc_coeff (Fin (5 / 9)))
           \<or> (fl_gt bm_coeff bm_thr \<and> fl_gt bc_coeff (Fin (5 / 9))))
          \<or> fl_gt ashman (Fin 3))
         \<and> fl_gt surface_ratio surface_ratio_thr))
   \<and> (\<not> optimization obj \<and> estimate_bimodality lib (int_db obj) = (sigma_max, ad_max) \<longrightarrow>
      compute_metric lib obj default_flags [ashman_thr, bhc_thr, surface_ratio_thr, bm_thr] =
        (fl_gt sigma_max bm_thr \<and> fl_gt ad_max (Fin 1.5)))"
  by (simp add: compute_metric_def default_flags_def two_of_three Let_def)

lemma ashman_fitted: "compute_ashman (- 20, 1, 1 / 10) (- 5, 1, 1 / 10) = Fin 15"
  by (simp add: compute_ashman_def fl_div_def)

text \<open>C3 at a fitted estimator (ashman 15) and at an estimator whose fit failed.\<close>

theorem compute_metric_decision_rule_witness:
  "compute_metric fitted_lib fitted_obj default_flags run_thresholds = True \<and>
   compute_metric fallback_lib unfitted_obj default_flags run_thresholds = True"
proof -
  have g: "get_metric fitted_lib fitted_obj = (Fin 15, Fin 0.98, Fin 0.5, Fin 0.05, Fin 0.6)"
    by (simp add: get_metric_def fitted_obj_def fitted_lib_def lib0_def ashman_fitted)
  have o: "optimization fitted_obj \<and> length (int_db fitted_obj) > 4"
    by (simp add: optimization_def fitted_obj_def)
  have e: "\<not> optimization unfitted_obj \<and> estimate_bimodality fallback_lib (int_db unfitted_obj) = (Fin 0.8, Fin 2)"
    by (simp add: optimization_def unfitted_obj_def fallback_lib_def lib0_def)
  show ?thesis
    using compute_metric_decision_rule [of fitted_obj fitted_lib "Fin 15" "Fin 0.98" "Fin 0.5" "Fin 0.05" "Fin 0.6" "Fin 1.5" "Fin 0.97" "Fin 0.1" "Fin 0.7" "Fin 0" "Fin 0"]
      compute_metric_decision_rule [of unfitted_obj fallback_lib "Fin 0" "Fin 0" "Fin 0" "Fin 0" "Fin 0" "Fin 1.5" "Fin 0.97" "Fin 0.1" "Fin 0.7" "Fin 0.8" "Fin 2"]
      g o e
    by (simp add: run_thresholds_def fl_gt_def)
qed

section \<open>The threshold of the constructor\<close>

lemma glint_window: "read_window (0, 6, 0, Suc 0) glint_scene = glint_scene"
  by (simp add: glint_scene_def)

lemma glint_portion: "ref_land_portion glint_scene 0 = Fin 1"
  by (simp add: glint_scene_def scene_eval)

lemma glint_has_band: "has_band glint_scene 0"
  by (simp add: glint_scene_def scene_eval)

lemma glint_center: "intensity_center glint_scene 0 0 = Fin 0.0001"
  by (simp add: glint_scene_def scene_eval)

lemma glint_buffer: "mask_buffer glint_scene 0 4 = [[True, True, True, True, True, True]]"
  by (simp add: glint_scene_def scene_eval dark_land_margin_4)

lemma glint_adjacent_area: "intensity_adjacent_area glint_scene 0 0 4 = [Fin 3.16, Fin 10]"
  by (simp add: intensity_adjacent_area_def adjacent_mask_def glint_buffer)
     (simp add: glint_scene_def scene_eval)

lemma glint_low: "intensity_adjacent_low glint_scene 0 0 4 = Fin 4.186"
  by (simp add: intensity_adjacent_low_def glint_adjacent_area)
     (simp add: scene_eval)

lemma glint_sample:
  "intensity_array glint_scene 0 0 4
     = [Fin 3.16, Fin 0.0001, Fin 0.0001, Fin 0.0001, Fin 0.0001, Fin 10]"
  by (simp add: intensity_array_def glint_buffer)
     (simp add: glint_scene_def valid_intensity_def scene_eval)

lemmas glint_scene_eval =
  glint_window glint_portion glint_has_band glint_center glint_low glint_sample

text \<open>
  Where the selection works: a level strictly inside the bounds is selected (the first
  one), and the global threshold is retained when no level reaches the lower bound.
\<close>

lemma global_threshold_first_inside:
  assumes "threshold_otsu lib valid = Inr otsu" and "fl_less otsu (fst bound)"
    and "threshold_multiotsu lib valid = Inr multi"
    and "filter (\<lambda>m. fl_gt m (fst bound) \<and> fl_less m (snd bound)) multi = m # ms"
  shows "global_threshold lib bound valid = Inr m"
proof -
  have "m \<in> set (filter (\<lambda>m. fl_gt m (fst bound) \<and> fl_less m (snd bound)) multi)"
    using assms(4) by simp
  then have "m \<in> set multi" and "fl_gt m (fst bound)"
    by simp_all
  then have "list_ex (\<lambda>m. fl_ge m (fst bound)) multi"
    by (auto simp add: list_ex_iff fl_ge_def fl_gt_def)
  then show ?thesis
    using assms by (simp add: global_threshold_def)
qed

lemma global_threshold_retained:
  assumes "threshold_otsu lib valid = Inr otsu" and "fl_less otsu (fst bound)"
    and "threshold_multiotsu lib valid = Inr multi"
    and "\<not> list_ex (\<lambda>m. fl_ge m (fst bound)) multi"
  shows "global_threshold lib bound valid = Inr otsu"
  using assms by (simp add: global_threshold_def)

text \<open>
  C7 fails on the code. With a global Otsu threshold of -39.9 dB and multi-level Otsu
  levels -39.9 dB and 5.02 dB, a level is at least the lower bound -18 but none lies
  strictly between -18 and 0: the index of the first level inside the bounds does not
  exist, the constructor raises IndexError outside its \<open>try\<close> block, and the worker
  that built the estimator raises with it.
\<close>

theorem otsu_window_index_error:
  "global_threshold otsu_gap_lib gauss_dist_thres_bound
     (map to_db [Fin 3.16, Fin 0.0001, Fin 0.0001, Fin 0.0001, Fin 0.0001, Fin 10])
     = Inl IndexError \<and>
   BimodalityMetrics_init otsu_gap_lib
     [Fin 3.16, Fin 0.0001, Fin 0.0001, Fin 0.0001, Fin 0.0001, Fin 10] = Inl IndexError \<and>
   process_dark_land_component otsu_gap_lib glint_scene 0 run_thresholds 4 False
     (0, 4, (0, 6, 0, 1)) = Inl IndexError"
proof -
  have g: "global_threshold otsu_gap_lib gauss_dist_thres_bound v = Inl IndexError" for v
    by (simp add: global_threshold_def otsu_gap_lib_def lib0_def gauss_dist_thres_bound_def
          fl_ge_def fl_gt_def fl_eq_def)
  have i: "BimodalityMetrics_init otsu_gap_lib v = Inl IndexError" for v
    by (simp add: BimodalityMetrics_init_def g)
  have p: "process_dark_land_component otsu_gap_lib glint_scene 0 run_thresholds 4 False
             (0, 4, (0, 6, 0, 1)) = Inl IndexError"
    by (simp add: process_dark_land_component_def glint_scene_eval i fl_gt_def
          del: read_window.simps)
  show ?thesis
    using g i p by simp
qed

section \<open>The default of the bright-water classifier\<close>

lemma half_above_not_less: "0 \<le> c \<Longrightarrow> \<not> fl_less (fl_add t (Fin c)) t"
  by (cases t) simp_all

text \<open>
  C8. For a component whose water portion is at most 0.99 (read from a window of more
  than one pixel of files that have the band), the worker estimates nothing and returns
  \<open>(threshold[0] + 0.5, threshold[1] + 0.5)\<close>, and the driver's verdict
  \<open>bt < threshold[0] or ad < threshold[1]\<close> on it is False.
\<close>

theorem bright_water_default_rejects:
  "bright_has_band (read_window bnds scene) pol_ind \<Longrightarrow>
   \<not> single_pixel (read_window bnds scene) \<Longrightarrow>
   landcover_portion (read_window bnds scene) ind \<le> 0.99 \<Longrightarrow>
   process_bright_water_component lib scene pol_ind threshold (ind, sizes, bnds)
     = Inr (fl_add (fst threshold) (Fin 0.5), fl_add (snd threshold) (Fin 0.5), ind)
   \<and> \<not> bimodality_bright_water threshold
         (fl_add (fst threshold) (Fin 0.5), fl_add (snd threshold) (Fin 0.5), ind)"
  by (simp add: process_bright_water_component_def bimodality_bright_water_def half_above_not_less)


text \<open>C8 at a component on reference land, with the thresholds 0.7 and 1.5.\<close>

theorem bright_water_default_rejects_witness:
  "bright_has_band (read_window (0, 6, 0, 1) bright_scene) 0 \<and>
   \<not> single_pixel (read_window (0, 6, 0, 1) bright_scene) \<and>
   landcover_portion (read_window (0, 6, 0, 1) bright_scene) 0 \<le> 0.99 \<and>
   process_bright_water_component lib0 bright_scene 0 (Fin 0.7, Fin 1.5) (0, 4, (0, 6, 0, 1))
     = Inr (Fin 1.2, Fin 2, 0) \<and>
   \<not> bimodality_bright_water (Fin 0.7, Fin 1.5) (Fin 1.2, Fin 2, 0)"
  using bright_water_default_rejects
          [of "(0, 6, 0, 1)" bright_scene 0 0 lib0 "(Fin 0.7, Fin 1.5)" 4]
  by (simp add: bright_scene_def bright_has_band_def single_pixel_def landcover_portion_def
        mask_water_def landcover_water_def px_def select2_def fl_eq_def)

section \<open>The worker pool and the aggregation of its results\<close>

lemma process_dark_land_index:
  "process_dark_land_component lib scene pol_ind thresholds minimum_pixel debug_mode job = Inr res
     \<Longrightarrow> fst res = fst job"
  by (cases job)
     (auto simp add: process_dark_land_component_def Let_def split: if_splits sum.splits)

lemma process_bright_water_index:
  "process_bright_water_component lib scene pol_ind threshold job = Inr res
     \<Longrightarrow> snd (snd res) = fst job"
  by (cases job)
     (auto simp add: process_bright_water_component_def Let_def split: if_splits prod.splits)

lemma Parallel_all2:
  "Parallel f js = Inr rs \<Longrightarrow> list_all2 (\<lambda>j r. f j = Inr r) js rs"
  by (induction js arbitrary: rs) (auto split: sum.splits)

lemma Parallel_indices:
  assumes "Parallel f js = Inr rs" and "\<And>j r. f j = Inr r \<Longrightarrow> key r = fst j"
  shows "map key rs = map fst js"
proof -
  have "list_all2 (\<lambda>j r. f j = Inr r) js rs"
    using assms(1) by (rule Parallel_all2)
  then have "list_all2 (\<lambda>j r. fst j = key r) js rs"
    by (rule list_all2_mono) (simp add: assms(2))
  then show ?thesis
    by (induction rule: list_all2_induct) simp_all
qed

lemma component_data_indices:
  "map fst (component_data bp rows cols minimum_pixel stats) =
     filter (\<lambda>ind. dark_land_dispatched bp minimum_pixel (stats ! ind)) [0..<length stats]"
  by (simp add: component_data_def dark_land_job_def Let_def comp_def)

lemma bright_component_data_indices:
  "map fst (bright_component_data bp rows cols stats) =
     filter (\<lambda>ind. bright_water_dispatched bp (stats ! ind)) [0..<length stats]"
  by (simp add: bright_component_data_def bright_water_job_def Let_def comp_def)

lemma dark_land_results_indices:
  assumes "dark_land_results lib scene pol_ind thresholds minimum_pixel debug_mode bp rows cols stats = Inr rs"
  shows "map fst rs = filter (\<lambda>ind. dark_land_dispatched bp minimum_pixel (stats ! ind)) [0..<length stats]"
  using Parallel_indices [OF assms [unfolded dark_land_results_def], of fst]
  by (simp add: process_dark_land_index component_data_indices)

lemma bright_water_results_indices:
  assumes "bright_water_results lib scene pol_ind threshold bp rows cols stats = Inr rs"
  shows "map (\<lambda>r. snd (snd r)) rs = filter (\<lambda>ind. bright_water_dispatched bp (stats ! ind)) [0..<length stats]"
  using Parallel_indices [OF assms [unfolded bright_water_results_def], of "\<lambda>r. snd (snd r)"]
  by (simp add: process_bright_water_index bright_component_data_indices)

lemma assign_result_length [simp]:
  "length (bimodality_output (assign_result d r out)) = length (bimodality_output out)"
  "length (check_output (assign_result d r out)) = length (check_output out)"
  by (simp_all add: assign_result_def split: prod.splits)

lemma fold_assign_result_length [simp]:
  "length (bimodality_output (fold (assign_result d) rs out)) = length (bimodality_output out)"
  "length (check_output (fold (assign_result d) rs out)) = length (check_output out)"
  by (induction rs arbitrary: out) simp_all

lemma assign_results_fold:
  "\<forall>r\<in>set rs. fst r < length (bimodality_output out) \<Longrightarrow>
   assign_results d rs out = Inr (fold (assign_result d) rs out)"
  by (induction rs arbitrary: out) simp_all

lemma assign_result_commute:
  "fst r \<noteq> fst r' \<Longrightarrow>
   assign_result d r (assign_result d r' out) = assign_result d r' (assign_result d r out)"
  by (cases r; cases r') (simp add: assign_result_def list_update_swap)

lemma fold_assign_result_perm:
  assumes "distinct (map fst rs)" and "mset rs' = mset rs"
  shows "fold (assign_result d) rs' = fold (assign_result d) rs"
proof (rule fold_multiset_equiv [symmetric])
  show "mset rs = mset rs'" using assms(2) by simp
next
  fix x y assume "x \<in> set rs" "y \<in> set rs"
  show "assign_result d x \<circ> assign_result d y = assign_result d y \<circ> assign_result d x"
  proof (cases "x = y")
    case True then show ?thesis by simp
  next
    case False
    with \<open>x \<in> set rs\<close> \<open>y \<in> set rs\<close> assms(1) have "fst x \<noteq> fst y"
      by (meson distinct_map inj_onD)
    then show ?thesis by (auto simp add: fun_eq_iff assign_result_commute)
  qed
qed

lemma assign_bright_result_length [simp]:
  "length (fst (assign_bright_result t r out)) = length (fst out)"
  "length (snd (assign_bright_result t r out)) = length (snd out)"
  by (simp_all add: assign_bright_result_def Let_def)

lemma assign_bright_results_fold:
  "\<forall>r\<in>set rs. snd (snd r) < length (fst out) \<Longrightarrow>
   assign_bright_results t rs out = Inr (fold (assign_bright_result t) rs out)"
  by (induction rs arbitrary: out) simp_all

lemma assign_bright_result_commute:
  "snd (snd r) \<noteq> snd (snd r') \<Longrightarrow>
   assign_bright_result t r (assign_bright_result t r' out) =
     assign_bright_result t r' (assign_bright_result t r out)"
  by (simp add: assign_bright_result_def Let_def list_update_swap)

lemma fold_assign_bright_result_perm:
  assumes "distinct (map (\<lambda>r. snd (snd r)) rs)" and "mset rs' = mset rs"
  shows "fold (assign_bright_result t) rs' = fold (assign_bright_result t) rs"
proof (rule fold_multiset_equiv [symmetric])
  show "mset rs = mset rs'" using assms(2) by simp
next
  fix x y assume "x \<in> set rs" "y \<in> set rs"
  show "assign_bright_result t x \<circ> assign_bright_result t y =
        assign_bright_result t y \<circ> assign_bright_result t x"
  proof (cases "x = y")
    case True then show ?thesis by simp
  next
    case False
    with \<open>x \<in> set rs\<close> \<open>y \<in> set rs\<close> assms(1) have "snd (snd x) \<noteq> snd (snd y)"
      by (meson distinct_map inj_onD)
    then show ?thesis by (auto simp add: fun_eq_iff assign_bright_result_commute)
  qed
qed

lemma dark_land_outputs_perm:
  assumes "dark_land_results lib scene pol_ind thresholds minimum_pixel debug_mode bp rows cols stats = Inr rs"
    and "mset rs' = mset rs"
  shows "dark_land_outputs d stats rs' = dark_land_outputs d stats rs"
proof -
  have ix: "map fst rs = filter (\<lambda>ind. dark_land_dispatched bp minimum_pixel (stats ! ind)) [0..<length stats]"
    using assms(1) by (rule dark_land_results_indices)
  then have dist: "distinct (map fst rs)" by simp
  have "set (map fst rs) \<subseteq> {..<length stats}" unfolding ix by auto
  then have inr: "\<forall>r\<in>set rs. fst r < length stats" by auto
  moreover have "set rs' = set rs" using assms(2) by (rule mset_eq_setD)
  ultimately have inr': "\<forall>r\<in>set rs'. fst r < length stats" by simp
  show ?thesis
    using inr inr' fold_assign_result_perm [OF dist assms(2), of d]
    by (simp add: dark_land_outputs_def assign_results_fold initial_outputs_def)
qed

lemma bright_water_outputs_perm:
  assumes "bright_water_results lib scene pol_ind threshold bp rows cols stats = Inr rs"
    and "mset rs' = mset rs"
  shows "bright_water_outputs t stats rs' = bright_water_outputs t stats rs"
proof -
  have ix: "map (\<lambda>r. snd (snd r)) rs = filter (\<lambda>ind. bright_water_dispatched bp (stats ! ind)) [0..<length stats]"
    using assms(1) by (rule bright_water_results_indices)
  then have dist: "distinct (map (\<lambda>r. snd (snd r)) rs)" by simp
  have "set (map (\<lambda>r. snd (snd r)) rs) \<subseteq> {..<length stats}" unfolding ix by auto
  then have inr: "\<forall>r\<in>set rs. snd (snd r) < length stats" by auto
  moreover have "set rs' = set rs" using assms(2) by (rule mset_eq_setD)
  ultimately have inr': "\<forall>r\<in>set rs'. snd (snd r) < length stats" by simp
  show ?thesis
    using inr inr' fold_assign_bright_result_perm [OF dist assms(2), of t]
    by (simp add: bright_water_outputs_def assign_bright_results_fold)
qed

text \<open>
  C9. The results of the pool carry pairwise different component indices inside the
  arrays, so for every permutation of the list of results the loop over the results
  fills the same arrays and the bimodality image and the check image are the same, in
  the driver that removes false water and in the driver that fills gaps.
\<close>

theorem aggregation_order_independent:
  "(dark_land_results lib scene pol_ind thresholds minimum_pixel debug_mode bp rows cols stats
      = Inr rs \<and>
    mset rs' = mset rs \<longrightarrow>
      dark_land_images debug_mode stats output_water rs'
        = dark_land_images debug_mode stats output_water rs)
   \<and>
   (bright_water_results lib2 scene2 pol_ind2 threshold bp2 rows2 cols2 stats2 = Inr bs \<and>
    mset bs' = mset bs \<longrightarrow>
      bright_water_images threshold stats2 output_water2 bs'
        = bright_water_images threshold stats2 output_water2 bs)"
proof (intro conjI impI)
  assume "dark_land_results lib scene pol_ind thresholds minimum_pixel debug_mode bp rows cols
            stats = Inr rs \<and> mset rs' = mset rs"
  then have "dark_land_outputs debug_mode stats rs' = dark_land_outputs debug_mode stats rs"
    using dark_land_outputs_perm by blast
  then show "dark_land_images debug_mode stats output_water rs'
               = dark_land_images debug_mode stats output_water rs"
    by (simp only: dark_land_images_def)
next
  assume "bright_water_results lib2 scene2 pol_ind2 threshold bp2 rows2 cols2 stats2 = Inr bs \<and>
          mset bs' = mset bs"
  then have "bright_water_outputs threshold stats2 bs' = bright_water_outputs threshold stats2 bs"
    using bright_water_outputs_perm by blast
  then show "bright_water_images threshold stats2 output_water2 bs'
               = bright_water_images threshold stats2 output_water2 bs"
    by (simp only: bright_water_images_def)
qed







section \<open>Components on the edge of a block\<close>








lemma raw_margin_1: "raw_margin (Suc 0) = 0"
proof -
  have upper: "sqrt 2 < 3 / 2"
    by (rule real_less_lsqrt) (auto simp: power2_eq_square)
  have lower: "6 / 5 < sqrt 2"
    by (rule real_less_rsqrt) (auto simp: power2_eq_square)
  have "\<lfloor>(sqrt 2 - 6 / 5) * sqrt (real (Suc 0))\<rfloor> = 0"
    using upper lower by (simp add: floor_eq_iff)
  then show ?thesis
    by (simp add: raw_margin_def)
qed

lemma lower_jobs:
  "component_data lower_block 6 7 1 lower_stats = [(1, 1, (0, 3, 3, 6)), (2, 1, (4, 7, 3, 6))]"
  by (simp add: component_data_def lower_block_def lower_stats_def dark_land_dispatched_def
        dark_land_job_def raw_margin_1 upt_rec)

lemma lower_worker_1:
  "process_dark_land_component lib0 seam_scene 0 run_thresholds 1 False (1, 1, (0, 3, 3, 6))
     = Inr (1, True, Fin 0, zeros5)"
  by (simp add: process_dark_land_component_def seam_scene_def bg_row_def bg_def Let_def scene_eval)

lemma lower_worker_2:
  "process_dark_land_component lib0 seam_scene 0 run_thresholds 1 False (2, 1, (4, 7, 3, 6))
     = Inr (2, False, NaN, zeros5)"
  by (simp add: process_dark_land_component_def seam_scene_def bg_row_def bg_def Let_def scene_eval)

lemma lower_results:
  "dark_land_results lib0 seam_scene 0 run_thresholds 1 False lower_block 6 7 lower_stats
     = Inr [(1, True, Fin 0, zeros5), (2, False, NaN, zeros5)]"
  by (simp only: dark_land_results_def lower_jobs Parallel.simps lower_worker_1 lower_worker_2
        sum.case)

lemma lower_outputs:
  "dark_land_outputs False lower_stats [(1, True, Fin 0, zeros5), (2, False, NaN, zeros5)]
     = Inr \<lparr> bimodality_output = [0, 1, 0], check_output = [1, 0, 0],
             ref_land_portion_output = [Fin 0, Fin 0, Fin 0],
             metric_output = [zeros5, zeros5, zeros5] \<rparr>"
  by (simp add: dark_land_outputs_def lower_stats_def initial_outputs_def assign_result_def
        numeral_3_eq_3)

lemma lower_n: "length lower_stats = 3"
  by (simp add: lower_stats_def)

lemma old_val_3: "old_val 3 = [9 / 10, 19 / 10, 29 / 10]"
  by (simp add: old_val_def upt_rec)

lemma lower_images:
  "dark_land_images False lower_stats lower_labels
       [(1, True, Fin 0, zeros5), (2, False, NaN, zeros5)]
     = Inr ([[0, 0, 0, 0, 0, 0, 0], [0, 1, 0, 0, 0, 0, 0], [0, 0, 0, 0, 0, 0, 0]],
            [[0, 0, 0, 1, 0, 0, 0], [0, 0, 0, 0, 0, 0, 0], [0, 0, 0, 0, 0, 0, 0]])"
  by (simp only: dark_land_images_def lower_outputs sum.case lower_n)
     (simp add: lower_labels_def scatter_def index_array_to_image_def old_val_3
        searchsorted_def)








section \<open>The order of the pool's results, at the example block\<close>

lemma lower_bright_jobs:
  "bright_component_data lower_block 6 7 lower_stats = [(1, 1, (1, 3, 4, 6)), (2, 1, (5, 7, 4, 6))]"
  by (simp add: bright_component_data_def lower_block_def lower_stats_def
        bright_water_dispatched_def bright_water_job_def raw_margin_1 upt_rec)

lemma lower_bright_worker_1:
  "process_bright_water_component lib0 seam_scene 0 (Fin 0.7, Fin 1.5) (1, 1, (1, 3, 4, 6))
     = Inr (Fin 0, Fin 0, 1)"
  by (simp add: process_bright_water_component_def seam_scene_def bg_row_def bg_def Let_def px_def
        bright_has_band_def single_pixel_def landcover_portion_def mask_water_def
        landcover_water_def select2_def fl_eq_def lib0_def)

lemma lower_bright_worker_2:
  "process_bright_water_component lib0 seam_scene 0 (Fin 0.7, Fin 1.5) (2, 1, (5, 7, 4, 6))
     = Inr (Fin 1.2, Fin 2, 2)"
  by (simp add: process_bright_water_component_def seam_scene_def bg_row_def bg_def Let_def px_def
        bright_has_band_def single_pixel_def landcover_portion_def mask_water_def
        landcover_water_def select2_def fl_eq_def lib0_def)

lemma lower_bright_results:
  "bright_water_results lib0 seam_scene 0 (Fin 0.7, Fin 1.5) lower_block 6 7 lower_stats
     = Inr [(Fin 0, Fin 0, 1), (Fin 1.2, Fin 2, 2)]"
  by (simp only: bright_water_results_def lower_bright_jobs Parallel.simps
        lower_bright_worker_1 lower_bright_worker_2 sum.case)

lemma lower_bright_images:
  "bright_water_images (Fin 0.7, Fin 1.5) lower_stats lower_labels
       [(Fin 0, Fin 0, 1), (Fin 1.2, Fin 2, 2)]
     = Inr ([[0, 0, 0, 0, 0, 0, 0], [0, 1, 0, 0, 0, 0, 0], [0, 0, 0, 0, 0, 0, 0]],
            [[0, 0, 0, 1, 0, 0, 0], [0, 0, 0, 0, 0, 0, 0], [0, 0, 0, 0, 0, 0, 0]])"
  by (simp add: bright_water_images_def bright_water_outputs_def lower_n
        assign_bright_result_def bimodality_bright_water_def numeral_3_eq_3
        scatter_def index_array_to_image_def searchsorted_def lower_labels_def old_val_def
        upt_rec)


text \<open>C9 at the two results of the example block, in both orders, for both drivers.\<close>

theorem aggregation_order_independent_witness:
  "(dark_land_results lib0 seam_scene 0 run_thresholds 1 False lower_block 6 7 lower_stats
      = Inr [(1, True, Fin 0, zeros5), (2, False, NaN, zeros5)] \<and>
    mset [(2, False, NaN, zeros5), (1, True, Fin 0, zeros5)]
      = mset [(1, True, Fin 0, zeros5), (2, False, NaN, zeros5)] \<and>
    dark_land_images False lower_stats lower_labels
        [(2, False, NaN, zeros5), (1, True, Fin 0, zeros5)]
      = Inr ([[0, 0, 0, 0, 0, 0, 0], [0, 1, 0, 0, 0, 0, 0], [0, 0, 0, 0, 0, 0, 0]],
             [[0, 0, 0, 1, 0, 0, 0], [0, 0, 0, 0, 0, 0, 0], [0, 0, 0, 0, 0, 0, 0]]))
   \<and>
   (bright_water_results lib0 seam_scene 0 (Fin 0.7, Fin 1.5) lower_block 6 7 lower_stats
      = Inr [(Fin 0, Fin 0, 1), (Fin 1.2, Fin 2, 2)] \<and>
    mset [(Fin 1.2, Fin 2, 2), (Fin 0, Fin 0, 1)] = mset [(Fin 0, Fin 0, 1), (Fin 1.2, Fin 2, 2)] \<and>
    bright_water_images (Fin 0.7, Fin 1.5) lower_stats lower_labels
        [(Fin 1.2, Fin 2, 2), (Fin 0, Fin 0, 1)]
      = Inr ([[0, 0, 0, 0, 0, 0, 0], [0, 1, 0, 0, 0, 0, 0], [0, 0, 0, 0, 0, 0, 0]],
             [[0, 0, 0, 1, 0, 0, 0], [0, 0, 0, 0, 0, 0, 0], [0, 0, 0, 0, 0, 0, 0]]))"
proof -
  have d: "mset [(2, False, NaN, zeros5), (1::nat, True, Fin 0, zeros5)]
             = mset [(1, True, Fin 0, zeros5), (2, False, NaN, zeros5)]"
    by (simp add: add.commute)
  have b: "mset [(Fin 1.2, Fin 2, 2::nat), (Fin 0, Fin 0, 1)]
             = mset [(Fin 0, Fin 0, 1), (Fin 1.2, Fin 2, 2)]"
    by (simp add: add.commute)
  show ?thesis
    using aggregation_order_independent
            [of lib0 seam_scene 0 run_thresholds 1 False lower_block 6 7 lower_stats
                "[(1, True, Fin 0, zeros5), (2, False, NaN, zeros5)]"
                "[(2, False, NaN, zeros5), (1, True, Fin 0, zeros5)]"
                lower_labels
                lib0 seam_scene 0 "(Fin 0.7, Fin 1.5)" lower_block 6 7 lower_stats
                "[(Fin 0, Fin 0, 1), (Fin 1.2, Fin 2, 2)]"
                "[(Fin 1.2, Fin 2, 2), (Fin 0, Fin 0, 1)]" lower_labels]
          lower_results lower_images lower_bright_results lower_bright_images d b
    by simp
qed

end
